theory Spec2Isabelle
  imports Complex_Main
begin

section \<open>Numbers, failures and list access\<close>

text \<open>
  The program is \<^verbatim>\<open>stats.py\<close>: one function \<^verbatim>\<open>stats\<close> and a command-line driver
  \<^verbatim>\<open>main\<close>. Python floats are modelled as real numbers (the specification speaks of a
  sequence of real numbers); rounding, overflow, infinities and NaN of IEEE doubles are
  outside this model. Every exception the code can raise is a value of \<open>failure\<close>.
\<close>

datatype failure = IndexError | ValueError | ZeroDivisionError | OutsideModel

text \<open>\<^verbatim>\<open>prec = 1e-5\<close>\<close>

definition prec :: real where
  "prec = 1 / 100000"

text \<open>\<^verbatim>\<open>int(x)\<close> on a float: truncation towards zero.\<close>

definition py_int :: "real \<Rightarrow> int" where
  "py_int x = (if 0 \<le> x then \<lfloor>x\<rfloor> else \<lceil>x\<rceil>)"

text \<open>\<^verbatim>\<open>arr[i]\<close>: an index below zero counts from the end; outside the list it raises.\<close>

definition item :: "'a list \<Rightarrow> int \<Rightarrow> failure + 'a" where
  "item arr i =
     (if 0 \<le> i \<and> i < int (length arr) then Inr (arr ! nat i)
      else if i < 0 \<and> - int (length arr) \<le> i then Inr (arr ! nat (int (length arr) + i))
      else Inl IndexError)"

section \<open>The statistics of a sorted list\<close>

text \<open>
  Lines 19 to 23 of the source, on the list after \<^verbatim>\<open>arr.sort()\<close>:
  \<^verbatim>\<open>middle = int(aln / 2)\<close>, then the middle element or the mean of the two central ones.
\<close>

definition median :: "real list \<Rightarrow> failure + real" where
  "median arr =
     (let aln = int (length arr);
          middle = py_int (real_of_int aln / 2)
      in if aln mod 2 \<noteq> 0 then item arr middle
         else (case item arr (middle - 1) of
                 Inl e \<Rightarrow> Inl e
               | Inr a \<Rightarrow> (case item arr middle of
                            Inl e \<Rightarrow> Inl e
                          | Inr b \<Rightarrow> Inr ((a + b) / 2))))"

text \<open>Line 24: \<^verbatim>\<open>avg = sum(arr) / aln\<close>.\<close>

definition mean :: "real list \<Rightarrow> failure + real" where
  "mean arr =
     (if length arr = 0 then Inl ZeroDivisionError
      else Inr (sum_list arr / real (length arr)))"

text \<open>
  Lines 25 to 27: the fractional rank \<open>pctpos\<close>, its integer part \<open>pctposi\<close> (taken after
  adding \<open>prec\<close>) and the weight \<open>wgt\<close>, for a list of \<open>aln\<close> elements.
\<close>

definition pctpos :: "nat \<Rightarrow> real \<Rightarrow> real" where
  "pctpos aln pct = real_of_int (int aln - 1) * pct / 100"

definition pctposi :: "nat \<Rightarrow> real \<Rightarrow> int" where
  "pctposi aln pct = py_int (pctpos aln pct + prec)"

definition wgt :: "nat \<Rightarrow> real \<Rightarrow> real" where
  "wgt aln pct = pctpos aln pct - real_of_int (pctposi aln pct)"

text \<open>Lines 28 to 31: the element at the rank, or the interpolation with its successor.\<close>

definition percentile :: "real list \<Rightarrow> real \<Rightarrow> failure + real" where
  "percentile arr pct =
     (let aln = length arr
      in if \<bar>wgt aln pct\<bar> < prec then item arr (pctposi aln pct)
         else (case item arr (pctposi aln pct + 1) of
                 Inl e \<Rightarrow> Inl e
               | Inr hi \<Rightarrow> (case item arr (pctposi aln pct) of
                             Inl e \<Rightarrow> Inl e
                           | Inr lo \<Rightarrow> Inr (hi * wgt aln pct + lo * (1 - wgt aln pct)))))"

section \<open>Rendering numbers\<close>

text \<open>Decimal digits of a natural number, most significant first.\<close>

function string_of_nat :: "nat \<Rightarrow> string" where
  "string_of_nat n =
     (if n < 10 then [''0123456789'' ! n]
      else string_of_nat (n div 10) @ [''0123456789'' ! (n mod 10)])"
  by pat_completeness auto
termination
  by (relation "measure (\<lambda>n. n)") auto

declare string_of_nat.simps [simp del]

definition string_of_int :: "int \<Rightarrow> string" where
  "string_of_int i =
     (if i < 0 then CHR ''-'' # string_of_nat (nat (- i)) else string_of_nat (nat i))"

text \<open>
  The formatting routine rounds the exact value to the nearest multiple of \<open>10\<^sup>-\<^sup>d\<close>, a tie
  going to the even neighbour.
\<close>

definition round_half_even :: "real \<Rightarrow> int" where
  "round_half_even x =
     (let f = \<lfloor>x\<rfloor>; r = x - real_of_int f
      in if r < 1 / 2 then f
         else if 1 / 2 < r then f + 1
         else if even f then f else f + 1)"

text \<open>
  \<^verbatim>\<open>format(x, ".<d>f")\<close> for \<open>d \<ge> 0\<close>: sign, integer part, and, when \<open>d > 0\<close>, a point
  and exactly \<open>d\<close> digits.
\<close>

definition fixed :: "nat \<Rightarrow> real \<Rightarrow> string" where
  "fixed d x =
     (let scaled = nat (round_half_even (\<bar>x\<bar> * 10 ^ d));
          whole = string_of_nat (scaled div 10 ^ d);
          frac = string_of_nat (scaled mod 10 ^ d)
      in (if x < 0 then ''-'' else []) @ whole @
         (if d = 0 then []
          else CHR ''.'' # replicate (d - length frac) (CHR ''0'') @ frac))"

section \<open>Format strings\<close>

text \<open>
  The values handed to \<^verbatim>\<open>str.format\<close>, and a format string as the sequence of its literal
  runs and replacement fields: \<open>Plain i\<close> is \<^verbatim>\<open>{i}\<close>, \<open>Fixed i d\<close> is \<^verbatim>\<open>{i:.<d>f}\<close> with
  \<open>d\<close> the number that \<^verbatim>\<open>".%if" % digi\<close> printed. The automatic numbering of
  \<^verbatim>\<open>{}\<close> fields is written out.
\<close>

datatype pyval = PInt int | PFloat real

datatype piece = Lit string | Plain nat | Fixed nat int

text \<open>
  A precision with a minus sign is refused by the format parser. \<^verbatim>\<open>str\<close> of a float
  (its shortest representation) is not modelled; the program applies \<^verbatim>\<open>{0}\<close> to the count
  only.
\<close>

definition render_piece :: "pyval list \<Rightarrow> piece \<Rightarrow> failure + string" where
  "render_piece args p =
     (case p of
        Lit s \<Rightarrow> Inr s
      | Plain i \<Rightarrow>
          (if length args \<le> i then Inl IndexError
           else (case args ! i of
                   PInt k \<Rightarrow> Inr (string_of_int k)
                 | PFloat x \<Rightarrow> Inl OutsideModel))
      | Fixed i d \<Rightarrow>
          (if length args \<le> i then Inl IndexError
           else if d < 0 then Inl ValueError
           else (case args ! i of
                   PInt k \<Rightarrow> Inr (fixed (nat d) (real_of_int k))
                 | PFloat x \<Rightarrow> Inr (fixed (nat d) x))))"

fun format_str :: "piece list \<Rightarrow> pyval list \<Rightarrow> failure + string" where
  "format_str [] args = Inr []"
| "format_str (p # ps) args =
     (case render_piece args p of
        Inl e \<Rightarrow> Inl e
      | Inr s \<Rightarrow> (case format_str ps args of
                    Inl e \<Rightarrow> Inl e
                  | Inr t \<Rightarrow> Inr (s @ t)))"

section \<open>The function stats\<close>

text \<open>
  Lines 33 to 36: the percentile label, \<^verbatim>\<open>"%i%%" % pct\<close> when \<open>pct\<close> has no fractional
  part and \<^verbatim>\<open>"%.2f%%" % pct\<close> otherwise.
\<close>

definition pctfmt :: "real \<Rightarrow> string" where
  "pctfmt pct =
     (if \<bar>pct - real_of_int (py_int pct)\<bar> = 0 then string_of_int (py_int pct) @ ''%''
      else fixed 2 pct @ ''%'')"

text \<open>Lines 37 to 57: the format string of the output line.\<close>

definition fstr :: "real \<Rightarrow> int \<Rightarrow> bool \<Rightarrow> piece list" where
  "fstr pct digi machine =
     (if machine then
        [Plain 0, Lit ''|'', Fixed 1 digi, Lit ''|'', Fixed 2 digi, Lit ''|'', Fixed 3 digi,
         Lit ''|'', Fixed 4 digi, Lit ''|'', Fixed 5 digi]
      else if 50 < pct then
        [Lit ''Num '', Plain 0, Lit '' Min '', Fixed 1 digi, Lit '' Med '', Fixed 2 digi,
         Lit '' Avg '', Fixed 3 digi, Lit '' '', Lit (pctfmt pct), Lit '' '', Fixed 4 digi,
         Lit '' Max '', Fixed 5 digi]
      else
        [Lit ''Num '', Plain 0, Lit '' Min '', Fixed 1 digi, Lit '' '', Lit (pctfmt pct),
         Lit '' '', Fixed 4 digi, Lit '' Med '', Fixed 2 digi, Lit '' Avg '', Fixed 3 digi,
         Lit '' Max '', Fixed 5 digi])"

text \<open>
  The six numbers of the result, computed in the order of the source (lines 17 to 31 and
  the arguments of line 59) on the sorted list; the first failure ends the computation.
\<close>

record summary =
  s_aln :: nat
  s_min :: real
  s_med :: real
  s_avg :: real
  s_pctl :: real
  s_max :: real

definition summarize :: "real list \<Rightarrow> real \<Rightarrow> failure + summary" where
  "summarize arr pct =
     (case median arr of Inl e \<Rightarrow> Inl e | Inr med \<Rightarrow>
      (case mean arr of Inl e \<Rightarrow> Inl e | Inr avg \<Rightarrow>
       (case percentile arr pct of Inl e \<Rightarrow> Inl e | Inr pctl \<Rightarrow>
        (case item arr 0 of Inl e \<Rightarrow> Inl e | Inr lo \<Rightarrow>
         (case item arr (int (length arr) - 1) of Inl e \<Rightarrow> Inl e | Inr hi \<Rightarrow>
            Inr \<lparr>s_aln = length arr, s_min = lo, s_med = med, s_avg = avg,
                 s_pctl = pctl, s_max = hi\<rparr>)))))"

text \<open>
  \<^verbatim>\<open>stats(arr, pct, digi, machine)\<close>. The first component is the caller's list after the
  call (sorted in place, line 18), the second the line printed or the exception raised.
\<close>

definition stats :: "real list \<Rightarrow> real \<Rightarrow> int \<Rightarrow> bool \<Rightarrow> real list \<times> (failure + string)" where
  "stats arr0 pct digi machine =
     (let arr = sort arr0
      in (arr,
          case summarize arr pct of
            Inl e \<Rightarrow> Inl e
          | Inr r \<Rightarrow>
              format_str (fstr pct digi machine)
                [PInt (int (s_aln r)), PFloat (s_min r), PFloat (s_med r), PFloat (s_avg r),
                 PFloat (s_pctl r), PFloat (s_max r)]))"

section \<open>Reading numbers from text\<close>

text \<open>
  \<^verbatim>\<open>float(s)\<close> and \<^verbatim>\<open>int(s)\<close> on a string of ASCII characters. Both strip white space
  at either end, accept a sign, and read groups of digits in which single underscores may
  separate digits. \<^verbatim>\<open>float\<close> reads \<^verbatim>\<open>[digits] "." digits | digits ["."]\<close> and an
  optional exponent; the spellings of infinity and NaN it also accepts have no real value
  and end in \<open>OutsideModel\<close>. The value read is the exact decimal value.
\<close>

definition is_space :: "char \<Rightarrow> bool" where
  "is_space c = (c \<in> set [CHR '' '', CHR 0x09, CHR 0x0A, CHR 0x0B, CHR 0x0C, CHR 0x0D])"

definition strip :: "string \<Rightarrow> string" where
  "strip s = rev (dropWhile is_space (rev (dropWhile is_space s)))"

definition digit_of :: "char \<Rightarrow> nat option" where
  "digit_of c =
     map_of [(CHR ''0'', 0), (CHR ''1'', 1), (CHR ''2'', 2), (CHR ''3'', 3), (CHR ''4'', 4),
             (CHR ''5'', 5), (CHR ''6'', 6), (CHR ''7'', 7), (CHR ''8'', 8), (CHR ''9'', 9)] c"

text \<open>After a digit: further digits, each possibly preceded by one underscore.\<close>

fun more_digits :: "string \<Rightarrow> nat list \<times> string" where
  "more_digits [] = ([], [])"
| "more_digits (c # cs) =
     (case digit_of c of
        Some d \<Rightarrow> (let (ds, r) = more_digits cs in (d # ds, r))
      | None \<Rightarrow>
          (if c = CHR ''_'' then
             (case cs of
                [] \<Rightarrow> ([], c # cs)
              | c' # cs' \<Rightarrow>
                  (case digit_of c' of
                     Some d \<Rightarrow> (let (ds, r) = more_digits cs' in (d # ds, r))
                   | None \<Rightarrow> ([], c # cs)))
           else ([], c # cs)))"

text \<open>The longest digit group at the front of a string, and what follows it.\<close>

definition digitpart :: "string \<Rightarrow> nat list \<times> string" where
  "digitpart s =
     (case s of
        [] \<Rightarrow> ([], [])
      | c # cs \<Rightarrow>
          (case digit_of c of
             Some d \<Rightarrow> (let (ds, r) = more_digits cs in (d # ds, r))
           | None \<Rightarrow> ([], s)))"

definition nat_of_digits :: "nat list \<Rightarrow> nat" where
  "nat_of_digits ds = foldl (\<lambda>a d. 10 * a + d) 0 ds"

definition take_sign :: "string \<Rightarrow> int \<times> string" where
  "take_sign s =
     (case s of
        [] \<Rightarrow> (1, [])
      | c # cs \<Rightarrow> if c = CHR ''+'' then (1, cs) else if c = CHR ''-'' then (- 1, cs) else (1, s))"

definition py_int_of_str :: "string \<Rightarrow> failure + int" where
  "py_int_of_str s =
     (let (sg, t) = take_sign (strip s);
          (ds, r) = digitpart t
      in if ds = [] \<or> r \<noteq> [] then Inl ValueError
         else Inr (sg * int (nat_of_digits ds)))"

definition lower :: "char \<Rightarrow> char" where
  "lower c =
     (case map_of [(CHR ''A'', CHR ''a''), (CHR ''F'', CHR ''f''), (CHR ''I'', CHR ''i''),
                   (CHR ''N'', CHR ''n''), (CHR ''T'', CHR ''t''), (CHR ''Y'', CHR ''y'')] c of
        Some l \<Rightarrow> l
      | None \<Rightarrow> c)"

definition scale10 :: "int \<Rightarrow> real" where
  "scale10 e = (if 0 \<le> e then 10 ^ nat e else 1 / 10 ^ nat (- e))"

definition py_float :: "string \<Rightarrow> failure + real" where
  "py_float s =
     (let (sg, t) = take_sign (strip s)
      in if map lower t \<in> set [''inf'', ''infinity'', ''nan''] then Inl OutsideModel
         else
           (let (ip, r1) = digitpart t;
                dot = (r1 \<noteq> [] \<and> hd r1 = CHR ''.'');
                (fp, r2) = (if dot then digitpart (tl r1) else ([], r1));
                mant = real (nat_of_digits ip) + real (nat_of_digits fp) / 10 ^ length fp
            in if ip = [] \<and> fp = [] then Inl ValueError
               else if r2 = [] then Inr (real_of_int sg * mant)
               else if hd r2 = CHR ''e'' \<or> hd r2 = CHR ''E'' then
                 (let (esg, u) = take_sign (tl r2);
                      (ed, r3) = digitpart u
                  in if ed = [] \<or> r3 \<noteq> [] then Inl ValueError
                     else Inr (real_of_int sg * mant * scale10 (esg * int (nat_of_digits ed))))
               else Inl ValueError))"

section \<open>The driver\<close>

text \<open>
  Line 84: \<^verbatim>\<open>sys.stdin.read().rstrip("\n").split(" ")\<close>, then \<^verbatim>\<open>float\<close> on every token
  from the left.
\<close>

definition rstrip_nl :: "string \<Rightarrow> string" where
  "rstrip_nl s = rev (dropWhile (\<lambda>c. c = CHR 0x0A) (rev s))"

fun split_on :: "char \<Rightarrow> string \<Rightarrow> string list" where
  "split_on sep [] = [[]]"
| "split_on sep (c # cs) =
     (if c = sep then [] # split_on sep cs
      else (let r = split_on sep cs in (c # hd r) # tl r))"

definition tokens :: "string \<Rightarrow> string list" where
  "tokens inp = split_on (CHR '' '') (rstrip_nl inp)"

fun map_float :: "string list \<Rightarrow> failure + real list" where
  "map_float [] = Inr []"
| "map_float (t # ts) =
     (case py_float t of
        Inl e \<Rightarrow> Inl e
      | Inr x \<Rightarrow> (case map_float ts of Inl e \<Rightarrow> Inl e | Inr xs \<Rightarrow> Inr (x # xs)))"

definition read_numbers :: "string \<Rightarrow> failure + real list" where
  "read_numbers inp = map_float (tokens inp)"

text \<open>
  Lines 63 to 82: the option loop. The state is the three variables \<open>pct\<close>, \<open>dig\<close> and
  \<open>machine\<close>; the list is what is left of \<open>argv\<close> from \<open>optidx\<close> on. A missing value after
  \<^verbatim>\<open>-p\<close> or \<^verbatim>\<open>-d\<close> is an index past the end of \<open>argv\<close>.
\<close>

record options =
  o_pct :: real
  o_dig :: int
  o_machine :: bool

datatype parsed = Parsed options | Usage string | Crash failure

fun parse_args :: "string list \<Rightarrow> options \<Rightarrow> parsed" where
  "parse_args [] st = Parsed st"
| "parse_args (a # rest) st =
     (if a = ''-p'' then
        (case rest of
           [] \<Rightarrow> Crash IndexError
         | v # rest' \<Rightarrow>
             (case py_float v of
                Inl e \<Rightarrow> Crash e
              | Inr x \<Rightarrow> parse_args rest' (st\<lparr>o_pct := x\<rparr>)))
      else if a = ''-d'' then
        (case rest of
           [] \<Rightarrow> Crash IndexError
         | v # rest' \<Rightarrow>
             (case py_int_of_str v of
                Inl e \<Rightarrow> Crash e
              | Inr k \<Rightarrow> parse_args rest' (st\<lparr>o_dig := k\<rparr>)))
      else if a = ''-m'' then parse_args rest (st\<lparr>o_machine := True\<rparr>)
      else Usage a)"

definition usage_msg :: "string \<Rightarrow> string" where
  "usage_msg tok =
     ''Error: Unknown option '' @ [CHR 0x22] @ tok @ [CHR 0x22] @
     ''. Usage stats.py [-p pct] [-d dig] [-m] < data''"

text \<open>
  How a run ends: the function returns (exit status 0), \<^verbatim>\<open>sys.exit(n)\<close>, or an exception
  that nothing catches. \<open>main argv inp\<close> gives the lines written to standard output and
  the ending, for the arguments \<open>argv\<close> and the text \<open>inp\<close> on standard input.
\<close>

datatype ending = Returned | Exited int | Raised failure

definition main :: "string list \<Rightarrow> string \<Rightarrow> string list \<times> ending" where
  "main argv inp =
     (case parse_args argv \<lparr>o_pct = 95, o_dig = 2, o_machine = False\<rparr> of
        Usage tok \<Rightarrow> ([usage_msg tok], Exited 1)
      | Crash e \<Rightarrow> ([], Raised e)
      | Parsed st \<Rightarrow>
          (case read_numbers inp of
             Inl e \<Rightarrow> ([], Raised e)
           | Inr arr \<Rightarrow>
               (case snd (stats arr (o_pct st) (o_dig st) (o_machine st)) of
                  Inl e \<Rightarrow> ([], Raised e)
                | Inr line \<Rightarrow> ([line], Returned))))"

section \<open>List access, median and mean\<close>

lemma py_int_nonneg: "0 \<le> x \<Longrightarrow> py_int x = \<lfloor>x\<rfloor>"
  by (simp add: py_int_def)

lemma item_nth: "i < length arr \<Longrightarrow> item arr (int i) = Inr (arr ! i)"
  by (simp add: item_def)

lemma item_last: "arr \<noteq> [] \<Longrightarrow> item arr (int (length arr) - 1) = Inr (arr ! (length arr - 1))"
  using item_nth [of "length arr - 1" arr] by (simp add: of_nat_diff Suc_leI)




lemma mean_nonempty: "s \<noteq> [] \<Longrightarrow> mean s = Inr (sum_list s / real (length s))"
  by (simp add: mean_def)


lemma summarize_ok:
  assumes "s \<noteq> []" "percentile s pct = Inr p" "median s = Inr m"
  shows "summarize s pct =
           Inr \<lparr>s_aln = length s, s_min = s ! 0, s_med = m,
                s_avg = sum_list s / real (length s), s_pctl = p,
                s_max = s ! (length s - 1)\<rparr>"
proof -
  from assms(1) have "item s 0 = Inr (s ! 0)" using item_nth [of 0 s] by simp
  then show ?thesis
    using assms by (simp add: summarize_def mean_nonempty item_last)
qed


lemma item_int:
  "0 \<le> i \<Longrightarrow> i < int (length arr) \<Longrightarrow> item arr i = Inr (arr ! nat i)"
  by (simp add: item_def)


lemma pctpos_spec: "pctpos n pct = (real n - 1) * pct / 100"
  by (simp add: pctpos_def)

lemma pctposi_floor:
  assumes "0 < n" "0 \<le> pct"
  shows "pctposi n pct = \<lfloor>pctpos n pct + prec\<rfloor>"
proof -
  from assms have "0 \<le> pctpos n pct" by (simp add: pctpos_spec)
  then have "0 \<le> pctpos n pct + prec" by (simp add: prec_def)
  then show ?thesis by (simp add: pctposi_def py_int_nonneg)
qed


lemma percentile_exact:
  assumes "0 \<le> pctposi (length s) pct" "pctposi (length s) pct < int (length s)"
    "\<bar>wgt (length s) pct\<bar> < prec"
  shows "percentile s pct = Inr (s ! nat (pctposi (length s) pct))"
  using assms by (simp add: percentile_def Let_def item_int)




section \<open>The percentile\<close>




section \<open>The percentiles 0, 50 and 100\<close>

lemma floor_add_prec: "\<lfloor>real_of_int k + prec\<rfloor> = k"
  by (simp add: prec_def floor_eq_iff)

lemma pct_0: "pctpos n 0 = 0" "pctposi n 0 = 0" "wgt n 0 = 0"
  by (simp_all add: pctpos_def pctposi_def wgt_def py_int_def prec_def)

lemma pct_100:
  assumes "0 < n"
  shows "pctpos n 100 = real n - 1" "pctposi n 100 = int n - 1" "wgt n 100 = 0"
proof -
  show p: "pctpos n 100 = real n - 1" by (simp add: pctpos_def)
  have "real n - 1 = real_of_int (int n - 1)" by simp
  then have "\<lfloor>pctpos n 100 + prec\<rfloor> = int n - 1"
    unfolding p using floor_add_prec [of "int n - 1"] by simp
  then show q: "pctposi n 100 = int n - 1"
    using pctposi_floor [OF assms, of 100] by simp
  show "wgt n 100 = 0" by (simp add: wgt_def p q)
qed

lemma percentile_0: "s \<noteq> [] \<Longrightarrow> percentile s 0 = Inr (s ! 0)"
  using percentile_exact [of s 0] by (simp add: pct_0 prec_def)

lemma percentile_100:
  assumes "s \<noteq> []"
  shows "percentile s 100 = Inr (s ! (length s - 1))"
proof -
  from assms have n: "0 < length s" by simp
  have "nat (int (length s) - 1) = length s - 1" by simp
  then show ?thesis
    using percentile_exact [of s 100] n by (simp add: pct_100 [OF n] prec_def)
qed

lemma sorted_first_Min:
  assumes "sorted s" "s \<noteq> []"
  shows "s ! 0 = Min (set s)"
proof -
  from assms obtain x xs where s: "s = x # xs" by (cases s) auto
  with assms(1) have "\<forall>y\<in>set s. x \<le> y" by auto
  then have "Min (set s) = x" using s by (intro Min_eqI) auto
  then show ?thesis by (simp add: s)
qed

lemma sorted_last_Max:
  assumes "sorted s" "s \<noteq> []"
  shows "s ! (length s - 1) = Max (set s)"
proof -
  have "\<forall>y\<in>set s. y \<le> s ! (length s - 1)"
  proof
    fix y assume "y \<in> set s"
    then obtain i where i: "i < length s" "y = s ! i" by (auto simp: in_set_conv_nth)
    then have "s ! i \<le> s ! (length s - 1)"
      using assms(1) by (intro sorted_nth_mono) auto
    with i show "y \<le> s ! (length s - 1)" by simp
  qed
  moreover have "s ! (length s - 1) \<in> set s" using assms(2) by simp
  ultimately have "Max (set s) = s ! (length s - 1)" by (intro Max_eqI) auto
  then show ?thesis by simp
qed

lemma sort_nonempty: "arr \<noteq> [] \<Longrightarrow> sort arr \<noteq> []"
  by (metis length_sort length_0_conv)

text \<open>
  C3. For a non-empty list and \<open>pct = 100\<close> the rank is the integer \<open>count - 1\<close>, the
  weight is zero, so the branch \<open>\<bar>wgt\<bar> < prec\<close> is taken: the percentile is the element at
  the last index \<open>count - 1\<close>, and the interpolation branch, which would read index
  \<open>count\<close>, is not entered.
\<close>

theorem pct_100_in_bounds:
  assumes "arr \<noteq> []"
  shows "pctpos (length arr) 100 = real (length arr) - 1 \<and>
         pctposi (length arr) 100 = int (length arr) - 1 \<and>
         \<bar>wgt (length arr) 100\<bar> < prec \<and>
         percentile (sort arr) 100 = item (sort arr) (int (length arr) - 1) \<and>
         percentile (sort arr) 100 = Inr (sort arr ! (length arr - 1))"
proof -
  from assms have n: "0 < length arr" by simp
  have s: "sort arr \<noteq> []" using assms by (rule sort_nonempty)
  have "item (sort arr) (int (length arr) - 1) = Inr (sort arr ! (length arr - 1))"
    using item_last [OF s] by simp
  moreover have "percentile (sort arr) 100 = Inr (sort arr ! (length arr - 1))"
    using percentile_100 [OF s] by simp
  ultimately show ?thesis by (simp add: pct_100 [OF n] prec_def)
qed

theorem pct_100_in_bounds_witness:
  "[3, 1, 2 :: real] \<noteq> [] \<and> \<bar>wgt (length [3, 1, 2 :: real]) 100\<bar> < prec \<and>
   percentile (sort [3, 1, 2]) 100 = Inr 3"
  using pct_100_in_bounds [of "[3, 1, 2]"] by (simp add: item_def)

text \<open>
  C4. For a non-empty list the percentile at \<open>pct = 0\<close> is the first element of the sorted
  list, which is the minimum, and at \<open>pct = 100\<close> it is the last element, the maximum.
\<close>

theorem pct_0_min_pct_100_max:
  assumes "arr \<noteq> []"
  shows "percentile (sort arr) 0 = Inr (sort arr ! 0) \<and>
         sort arr ! 0 = Min (set arr) \<and>
         percentile (sort arr) 100 = Inr (sort arr ! (length arr - 1)) \<and>
         sort arr ! (length arr - 1) = Max (set arr)"
proof -
  have s: "sort arr \<noteq> []" using assms by (rule sort_nonempty)
  have "sort arr ! 0 = Min (set arr)"
    using sorted_first_Min [of "sort arr"] s by simp
  moreover have "sort arr ! (length arr - 1) = Max (set arr)"
    using sorted_last_Max [of "sort arr"] s by simp
  ultimately show ?thesis
    using percentile_0 [OF s] percentile_100 [OF s] by simp
qed

theorem pct_0_min_pct_100_max_witness:
  "[3, 1, 2 :: real] \<noteq> [] \<and> percentile (sort [3, 1, 2]) 0 = Inr 1 \<and>
   Min (set [3, 1, 2 :: real]) = 1 \<and> percentile (sort [3, 1, 2]) 100 = Inr 3 \<and>
   Max (set [3, 1, 2 :: real]) = 3"
  using pct_0_min_pct_100_max [of "[3, 1, 2]"] by simp





section \<open>Order of the statistics\<close>






section \<open>Sorting in place\<close>

text \<open>
  C9. A call of \<open>stats\<close> leaves the caller's list sorted, and a second call on that list
  with the same parameters prints the same line (or raises the same exception) as the
  first call on the unsorted list, and leaves the list as it is.
\<close>

theorem stats_twice:
  "fst (stats arr pct digi machine) = sort arr \<and>
   snd (stats (fst (stats arr pct digi machine)) pct digi machine) =
     snd (stats arr pct digi machine) \<and>
   fst (stats (fst (stats arr pct digi machine)) pct digi machine) =
     fst (stats arr pct digi machine)"
  by (simp add: stats_def Let_def sort_key_id_if_sorted)

theorem stats_twice_witness:
  "snd (stats (fst (stats [3, 1, 2] 95 2 False)) 95 2 False) = snd (stats [3, 1, 2] 95 2 False)"
  using stats_twice [of "[3, 1, 2]" 95 2 False] by blast

end
